theory Spec2Isabelle
  imports Main "HOL-Library.Sublist"
begin

section \<open>A namespaced, file-rotating logger\<close>

text \<open>
  The repository holds two versions of the same class \<open>Logger\<close>:
  \<^item> \<open>src/logger.ts\<close>, whose definitions keep the names of the source here;
  \<^item> an unnamed second file (\<open>part_000\<close>), whose definitions carry the suffix \<open>2\<close>
    wherever its code differs from the first.

  What both files share textually (\<open>beautifyNumber\<close>, \<open>getDate\<close>, \<open>assembleTemplate\<close>,
  \<open>logToConsole\<close>) is translated once.
\<close>

subsection \<open>JavaScript values used by the code\<close>

text \<open>
  \<open>Number.prototype.toString\<close> on an integer: its decimal digits, after a minus sign when it
  is negative.
\<close>

function toString_int :: "int \<Rightarrow> string" where
  "toString_int n =
     (if n < 0 then ''-'' @ toString_int (- n)
      else if n < 10 then [''0123456789'' ! nat n]
      else toString_int (n div 10) @ [''0123456789'' ! nat (n mod 10)])"
  by pat_completeness auto
termination
  by (relation "measure (\<lambda>n. if n < 0 then nat (- n) + 1 else nat n)") auto

declare toString_int.simps [simp del]

text \<open>\<open>String.prototype.slice(-k)\<close>: the last \<open>k\<close> characters, or the whole string if it is shorter.\<close>

definition slice_last :: "nat \<Rightarrow> string \<Rightarrow> string" where
  "slice_last k s = drop (length s - k) s"

text \<open>
  The readings of a \<open>Date\<close> object that the code uses. \<open>getDay\<close> is the day of the week
  (0 is Sunday), \<open>getDate\<close> the day of the month, \<open>getMonth\<close> is 0-based.
\<close>

record JSDate =
  fullYear :: int
  month :: int
  date :: int
  day :: int
  hours :: int
  minutes :: int
  isoString :: string

text \<open>
  \<open>String.prototype.replace\<close> with a global regular expression that is a literal,
  non-empty text without capture groups (the only kind the code uses), and a replacement
  STRING. In a replacement string \<open>$$\<close> stands for a dollar sign, \<open>$&\<close> for the matched
  text, \<open>$`\<close> for the text before the match and \<open>$'\<close> for the text after it; any other
  dollar sign is literal.
\<close>

fun getSubstitution :: "string \<Rightarrow> string \<Rightarrow> string \<Rightarrow> string \<Rightarrow> string" where
  "getSubstitution matched preceding following [] = []"
| "getSubstitution matched preceding following [c] = [c]"
| "getSubstitution matched preceding following (c # d # r) =
     (if c = CHR ''$'' \<and> d = CHR ''$'' then CHR ''$'' # getSubstitution matched preceding following r
      else if c = CHR ''$'' \<and> d = CHR ''&'' then matched @ getSubstitution matched preceding following r
      else if c = CHR ''$'' \<and> d = CHR 0x60 then preceding @ getSubstitution matched preceding following r
      else if c = CHR ''$'' \<and> d = CHR 0x27 then following @ getSubstitution matched preceding following r
      else c # getSubstitution matched preceding following (d # r))"

function replace_from :: "string \<Rightarrow> string \<Rightarrow> string \<Rightarrow> string \<Rightarrow> string" where
  "replace_from pat rep done rest =
     (if rest = [] \<or> pat = [] then rest
      else if prefix pat rest
        then getSubstitution pat done (drop (length pat) rest) rep
               @ replace_from pat rep (done @ pat) (drop (length pat) rest)
      else hd rest # replace_from pat rep (done @ [hd rest]) (tl rest))"
  by pat_completeness auto
termination
  by (relation "measure (\<lambda>(pat, rep, done, rest). length rest)") auto

declare replace_from.simps [simp del]

definition replace_g :: "string \<Rightarrow> string \<Rightarrow> string \<Rightarrow> string" where
  "replace_g pat rep s = replace_from pat rep [] s"

subsection \<open>Top-level definitions of the source\<close>

datatype LogType = INFO | WARN | DEBUG | ERROR

text \<open>
  \<open>LogType\<close> is a numeric TypeScript enum: its members are the numbers 0 to 3, and
  \<open>type.toString()\<close> is the number's decimal text.
\<close>

fun LogType_value :: "LogType \<Rightarrow> int" where
  "LogType_value INFO = 0"
| "LogType_value WARN = 1"
| "LogType_value DEBUG = 2"
| "LogType_value ERROR = 3"

definition LogType_toString :: "LogType \<Rightarrow> string" where
  "LogType_toString t = toString_int (LogType_value t)"

text \<open>\<open>parseMonth\<close> of \<open>src/logger.ts\<close>.\<close>

definition parseMonth :: "int \<Rightarrow> string" where
  "parseMonth m =
     (if m = 2 then ''February''
      else if m = 3 then ''March''
      else if m = 4 then ''April''
      else if m = 5 then ''May''
      else if m = 6 then ''June''
      else if m = 7 then ''July''
      else if m = 8 then ''August''
      else if m = 9 then ''September''
      else if m = 10 then ''October''
      else if m = 11 then ''November''
      else if m = 12 then ''December''
      else ''January'')"

text \<open>\<open>parseMonth\<close> of the second file.\<close>

definition parseMonth2 :: "int \<Rightarrow> string" where
  "parseMonth2 m =
     (if m = 1 then ''February''
      else if m = 2 then ''March''
      else if m = 3 then ''April''
      else if m = 4 then ''May''
      else if m = 5 then ''June''
      else if m = 6 then ''July''
      else if m = 7 then ''August''
      else if m = 8 then ''September''
      else if m = 9 then ''October''
      else if m = 10 then ''November''
      else if m = 11 then ''December''
      else ''January'')"

definition beautifyNumber :: "int \<Rightarrow> string" where
  "beautifyNumber number = slice_last 2 (''0'' @ toString_int number)"

text \<open>\<open>getDate()\<close> reads the clock; the reading is a parameter here.\<close>

definition getDate :: "JSDate \<Rightarrow> string" where
  "getDate now = isoString now"


subsection \<open>Attached objects and \<open>JSON.stringify\<close>\<close>

text \<open>
  The optional second argument of the logging calls is a JavaScript value that is a finite
  tree; an object is the list of its own enumerable properties in enumeration order.
\<close>

datatype json =
    JNull
  | JBool bool
  | JNumber int
  | JString string
  | JArray "json list"
  | JObject "(string \<times> json) list"

text \<open>The test \<open>settings.includeObjects && object\<close> reads the value as a boolean.\<close>

fun truthy :: "json \<Rightarrow> bool" where
  "truthy JNull = False"
| "truthy (JBool b) = b"
| "truthy (JNumber n) = (n \<noteq> 0)"
| "truthy (JString s) = (s \<noteq> [])"
| "truthy (JArray xs) = True"
| "truthy (JObject kvs) = True"

definition hex_digit :: "nat \<Rightarrow> char" where
  "hex_digit n = ''0123456789abcdef'' ! n"

definition quote_char :: "char \<Rightarrow> string" where
  "quote_char c =
     (if c = CHR 0x22 then [CHR 0x5C, CHR 0x22]
      else if c = CHR 0x5C then [CHR 0x5C, CHR 0x5C]
      else if c = CHR 0x08 then [CHR 0x5C, CHR ''b'']
      else if c = CHR 0x09 then [CHR 0x5C, CHR ''t'']
      else if c = CHR 0x0A then [CHR 0x5C, CHR ''n'']
      else if c = CHR 0x0C then [CHR 0x5C, CHR ''f'']
      else if c = CHR 0x0D then [CHR 0x5C, CHR ''r'']
      else if of_char c < (32::nat)
        then [CHR 0x5C, CHR ''u'', CHR ''0'', CHR ''0'',
              hex_digit (of_char c div 16), hex_digit (of_char c mod 16)]
      else [c])"

definition quote :: "string \<Rightarrow> string" where
  "quote s = [CHR 0x22] @ concat (map quote_char s) @ [CHR 0x22]"

fun join_with :: "string \<Rightarrow> string list \<Rightarrow> string" where
  "join_with sep [] = []"
| "join_with sep [x] = x"
| "join_with sep (x # y # ys) = x @ sep @ join_with sep (y # ys)"

fun JSON_stringify :: "json \<Rightarrow> string" where
  "JSON_stringify JNull = ''null''"
| "JSON_stringify (JBool b) = (if b then ''true'' else ''false'')"
| "JSON_stringify (JNumber n) = toString_int n"
| "JSON_stringify (JString s) = quote s"
| "JSON_stringify (JArray xs) = ''['' @ join_with '','' (map JSON_stringify xs) @ '']''"
| "JSON_stringify (JObject kvs) =
     ''{'' @ join_with '','' (map (\<lambda>kv. quote (fst kv) @ '':'' @ JSON_stringify (snd kv)) kvs) @ ''}''"

subsection \<open>\<open>path.join\<close> (POSIX)\<close>

fun split_on :: "char \<Rightarrow> string \<Rightarrow> string list" where
  "split_on c [] = [[]]"
| "split_on c (x # xs) =
     (if x = c then [] # split_on c xs
      else (case split_on c xs of [] \<Rightarrow> [[x]] | s # ss \<Rightarrow> (x # s) # ss))"

text \<open>
  One step of Node's \<open>normalizeString\<close>: empty and \<open>.\<close> segments are dropped, \<open>..\<close> removes
  the segment before it (or stays, in a relative path, when there is none to remove).
\<close>

definition normalize_step :: "bool \<Rightarrow> string list \<Rightarrow> string \<Rightarrow> string list" where
  "normalize_step allowAboveRoot res seg =
     (if seg = [] \<or> seg = ''.'' then res
      else if seg = ''..''
        then (if res \<noteq> [] \<and> last res \<noteq> ''..'' then butlast res
              else if allowAboveRoot then res @ [''..'']
              else res)
      else res @ [seg])"

definition normalizeString :: "string \<Rightarrow> bool \<Rightarrow> string" where
  "normalizeString path allowAboveRoot =
     join_with ''/'' (foldl (normalize_step allowAboveRoot) [] (split_on CHR ''/'' path))"

definition path_normalize :: "string \<Rightarrow> string" where
  "path_normalize path =
     (if path = [] then ''.''
      else
        let isAbsolute = (hd path = CHR ''/'');
            trailingSeparator = (last path = CHR ''/'');
            p = normalizeString path (\<not> isAbsolute)
        in if p = [] then (if isAbsolute then ''/'' else if trailingSeparator then ''./'' else ''.'')
           else (if isAbsolute then ''/'' else []) @ p @ (if trailingSeparator then ''/'' else []))"

definition path_join :: "string list \<Rightarrow> string" where
  "path_join args =
     (let parts = filter (\<lambda>a. a \<noteq> []) args
      in if parts = [] then ''.'' else path_normalize (join_with ''/'' parts))"


subsection \<open>The environment: disk, write streams, console, gzip\<close>

text \<open>
  The disk maps the path of a regular file to its content; \<open>Gzipped d\<close> is the gzip archive
  of \<open>d\<close>. Directories are not part of the disk: creating one always succeeds. A write
  stream is a handle, the index of its entry in \<open>streams\<close>. Every request to the
  environment is recorded in \<open>effects\<close>, in the order in which the code issues it, and takes
  effect when it is issued. The only request that can fail is the compression of a file:
  it fails when the file is not on the disk or is one of the \<open>faulty\<close> paths.
\<close>

datatype fileData = Raw string | Gzipped fileData

record WriteStream =
  target :: string
  ended :: bool

datatype exn = GzipError string

datatype consoleFn = console_info | console_warn | console_debug | console_error

datatype arg = Str string | Obj json | Err exn

datatype effect =
    Console consoleFn "arg list"
  | Mkdir string
  | CreateWriteStream string nat
  | StreamWrite nat string
  | StreamEnd nat
  | Gzip string string bool
  | Unlink string

record World =
  disk :: "string \<rightharpoonup> fileData"
  streams :: "WriteStream list"
  faulty :: "string set"
  effects :: "effect list"

definition console_call :: "consoleFn \<Rightarrow> arg list \<Rightarrow> World \<Rightarrow> World" where
  "console_call f args w = w\<lparr>effects := effects w @ [Console f args]\<rparr>"

text \<open>\<open>fs.mkdirSync(p, { recursive: true })\<close>\<close>

definition mkdirSync :: "string \<Rightarrow> World \<Rightarrow> World" where
  "mkdirSync p w = w\<lparr>effects := effects w @ [Mkdir p]\<rparr>"

text \<open>\<open>fs.createWriteStream(p, { flags: "w" })\<close>: the file is created or truncated.\<close>

definition createWriteStream :: "string \<Rightarrow> World \<Rightarrow> nat \<times> World" where
  "createWriteStream p w =
     (length (streams w),
      w\<lparr>disk := (disk w)(p \<mapsto> Raw []),
        streams := streams w @ [\<lparr>target = p, ended = False\<rparr>],
        effects := effects w @ [CreateWriteStream p (length (streams w))]\<rparr>)"

text \<open>
  \<open>writeStream.write(chunk)\<close>: the chunk is added at the end of the stream's file. Nothing
  reaches the disk when the stream has ended or its file has been removed.
\<close>

definition stream_write :: "nat \<Rightarrow> string \<Rightarrow> World \<Rightarrow> World" where
  "stream_write h chunk w =
     (let w' = w\<lparr>effects := effects w @ [StreamWrite h chunk]\<rparr>
      in if h < length (streams w) \<and> \<not> ended (streams w ! h)
         then (case disk w (target (streams w ! h)) of
                 Some (Raw c) \<Rightarrow> w'\<lparr>disk := (disk w)(target (streams w ! h) \<mapsto> Raw (c @ chunk))\<rparr>
               | _ \<Rightarrow> w')
         else w')"

text \<open>\<open>writeStream.end()\<close>\<close>

definition stream_end :: "nat \<Rightarrow> World \<Rightarrow> World" where
  "stream_end h w =
     w\<lparr>streams := (if h < length (streams w) then (streams w)[h := (streams w ! h)\<lparr>ended := True\<rparr>]
                    else streams w),
       effects := effects w @ [StreamEnd h]\<rparr>"

text \<open>\<open>fs.unlink(p, () => {})\<close>: the outcome is ignored by the callback.\<close>

definition unlink :: "string \<Rightarrow> World \<Rightarrow> World" where
  "unlink p w = w\<lparr>disk := (disk w)(p := None), effects := effects w @ [Unlink p]\<rparr>"

text \<open>\<open>compressing.gzip.compressFile(source, dest)\<close>: the promise it returns, once settled.\<close>

definition gzip_compressFile :: "string \<Rightarrow> string \<Rightarrow> World \<Rightarrow> (exn + unit) \<times> World" where
  "gzip_compressFile source dest w =
     (case disk w source of
        Some d \<Rightarrow>
          if source \<in> faulty w
          then (Inl (GzipError source), w\<lparr>effects := effects w @ [Gzip source dest False]\<rparr>)
          else (Inr (), w\<lparr>disk := (disk w)(dest \<mapsto> Gzipped d),
                           effects := effects w @ [Gzip source dest True]\<rparr>)
      | None \<Rightarrow> (Inl (GzipError source), w\<lparr>effects := effects w @ [Gzip source dest False]\<rparr>))"

subsection \<open>The class \<open>Logger\<close>: what both files share\<close>

text \<open>An optional boolean setting is read as a condition: unset counts as false.\<close>

definition is_set :: "bool option \<Rightarrow> bool" where
  "is_set b = (b = Some True)"

record LoggerSettings =
  consoleLog :: "bool option"
  includeObjects :: "bool option"

record LoggerSettings2 =
  logToFiles :: "bool option"
  logToConsole_flag :: "bool option"
  logObjects :: "bool option"

record LogFile =
  filePath :: string
  fileName :: string
  writeStream :: nat

text \<open>The fields of a \<open>Logger\<close>; the two files differ in the type of \<open>settings\<close> only.\<close>

record 'st Logger =
  namespace :: string
  logsPath :: string
  template :: string
  settings :: 'st
  currentDay :: int
  logFiles :: "LogType \<rightharpoonup> LogFile"

definition default_template :: string where
  "default_template = ''[%date%] [%type%] [%namespace%] [%message%]''"

definition default_settings :: LoggerSettings where
  "default_settings = \<lparr>consoleLog = Some True, includeObjects = Some True\<rparr>"

definition default_settings2 :: LoggerSettings2 where
  "default_settings2 =
     \<lparr>logToFiles = Some True, logToConsole_flag = Some True, logObjects = Some True\<rparr>"

text \<open>The outcome of the promise an \<open>async\<close> method returns.\<close>

datatype settled = Fulfilled | Rejected exn | Pending

text \<open>\<open>await a; b\<close>: \<open>b\<close> runs only once \<open>a\<close> is fulfilled.\<close>

definition and_then :: "settled \<times> 's \<Rightarrow> ('s \<Rightarrow> settled \<times> 's) \<Rightarrow> settled \<times> 's" where
  "and_then r f = (case fst r of Fulfilled \<Rightarrow> f (snd r) | _ \<Rightarrow> r)"

definition assembleTemplate :: "'st Logger \<Rightarrow> JSDate \<Rightarrow> LogType \<Rightarrow> string \<Rightarrow> string" where
  "assembleTemplate this now type message =
     replace_g ''%message%'' message
       (replace_g ''%namespace%'' (namespace this)
          (replace_g ''%type%'' (LogType_toString type)
             (replace_g ''%date%'' (getDate now) (template this))))"


text \<open>
  The value of \<open>flag && object\<close> where the code tests it: the object, when the setting is
  true and an object was passed.
\<close>

definition attached :: "bool option \<Rightarrow> json option \<Rightarrow> json option" where
  "attached flag object =
     (case object of
        Some obj \<Rightarrow> if is_set flag \<and> truthy obj then Some obj else None
      | None \<Rightarrow> None)"

type_synonym state = "LoggerSettings Logger \<times> World"

type_synonym state2 = "LoggerSettings2 Logger \<times> World"

subsection \<open>The methods of \<open>src/logger.ts\<close>\<close>

definition loadFiles :: "JSDate \<Rightarrow> state \<Rightarrow> state" where
  "loadFiles d s =
     (let this = (fst s)\<lparr>currentDay := day d\<rparr>;
          logDir = path_join [toString_int (fullYear d), parseMonth (month d)];
          logName = beautifyNumber (day d) @ ''-'' @ beautifyNumber (hours d) @ ''_''
                      @ beautifyNumber (minutes d) @ ''.log'';
          infoPath = path_join [logsPath this, ''info'', logDir];
          warnPath = path_join [logsPath this, ''warn'', logDir];
          debugPath = path_join [logsPath this, ''debug'', logDir];
          errorPath = path_join [logsPath this, ''error'', logDir];
          w = mkdirSync infoPath (snd s);
          w = mkdirSync warnPath w;
          w = mkdirSync debugPath w;
          w = mkdirSync errorPath w;
          (h, w) = createWriteStream (path_join [infoPath, logName]) w;
          this = this\<lparr>logFiles := (logFiles this)
                   (INFO \<mapsto> \<lparr>filePath = infoPath, fileName = logName, writeStream = h\<rparr>)\<rparr>;
          (h, w) = createWriteStream (path_join [warnPath, logName]) w;
          this = this\<lparr>logFiles := (logFiles this)
                   (WARN \<mapsto> \<lparr>filePath = warnPath, fileName = logName, writeStream = h\<rparr>)\<rparr>;
          (h, w) = createWriteStream (path_join [debugPath, logName]) w;
          this = this\<lparr>logFiles := (logFiles this)
                   (DEBUG \<mapsto> \<lparr>filePath = debugPath, fileName = logName, writeStream = h\<rparr>)\<rparr>;
          (h, w) = createWriteStream (path_join [errorPath, logName]) w;
          this = this\<lparr>logFiles := (logFiles this)
                   (ERROR \<mapsto> \<lparr>filePath = errorPath, fileName = logName, writeStream = h\<rparr>)\<rparr>
      in (this, w))"

definition Logger_new ::
  "string \<Rightarrow> string \<Rightarrow> LoggerSettings option \<Rightarrow> string option \<Rightarrow> JSDate \<Rightarrow> World \<Rightarrow> state" where
  "Logger_new namespace' logsPath' settings' template' now w =
     loadFiles now
       (\<lparr>namespace = namespace',
         logsPath = logsPath',
         template = (case template' of Some t \<Rightarrow> if t \<noteq> [] then t else default_template
                     | None \<Rightarrow> default_template),
         settings = (case settings' of Some st \<Rightarrow> st | None \<Rightarrow> default_settings),
         currentDay = 0,
         logFiles = Map.empty\<rparr>, w)"

text \<open>
  The promise of the compression is not awaited: its \<open>then\<close> handler does nothing and its
  \<open>catch\<close> handler reports on the console.
\<close>

definition compressFile :: "LogType \<Rightarrow> state \<Rightarrow> state" where
  "compressFile type s =
     (case logFiles (fst s) type of
        None \<Rightarrow> s
      | Some file \<Rightarrow>
          (case gzip_compressFile (path_join [filePath file, fileName file])
                  (path_join [filePath file, fileName file @ ''.gz'']) (snd s) of
             (Inr u, w) \<Rightarrow> (fst s, w)
           | (Inl error, w) \<Rightarrow>
               (fst s, console_call console_error
                  [Str (''Couldn't compress file '' @ filePath file @ ''/'' @ fileName file),
                   Err error] w)))"

text \<open>
  \<open>reloadFiles\<close> calls \<open>compressFiles\<close> without \<open>await\<close>. An \<open>async\<close> function runs up to its
  first \<open>await\<close> when it is called, so \<open>compressFile(LogType.INFO)\<close> runs at the call; the
  rest of \<open>compressFiles\<close> resumes only when the synchronous code of the caller is over,
  that is after \<open>loadFiles\<close> has replaced the four entries of \<open>logFiles\<close>.
\<close>

definition compressFiles_begin :: "state \<Rightarrow> state" where
  "compressFiles_begin s = compressFile INFO s"

definition compressFiles_resume :: "state \<Rightarrow> state" where
  "compressFiles_resume s = compressFile ERROR (compressFile DEBUG (compressFile WARN s))"

definition reloadFiles :: "JSDate \<Rightarrow> state \<Rightarrow> state" where
  "reloadFiles newDate s =
     (if day newDate \<noteq> currentDay (fst s)
      then compressFiles_resume (loadFiles newDate (compressFiles_begin s))
      else s)"

definition logToConsole :: "consoleFn \<Rightarrow> string \<Rightarrow> json option \<Rightarrow> state \<Rightarrow> state" where
  "logToConsole func templated object s =
     (case attached (includeObjects (settings (fst s))) object of
        Some obj \<Rightarrow> (fst s, console_call func [Str templated, Obj obj] (snd s))
      | None \<Rightarrow> (fst s, console_call func [Str templated] (snd s)))"

definition logToFile :: "LogType \<Rightarrow> string \<Rightarrow> json option \<Rightarrow> JSDate \<Rightarrow> state \<Rightarrow> state" where
  "logToFile type templated object newDate s =
     reloadFiles newDate
       (case logFiles (fst s) type of
          Some file \<Rightarrow>
            (case attached (includeObjects (settings (fst s))) object of
               Some obj \<Rightarrow>
                 (fst s, stream_write (writeStream file)
                           (templated @ ''['' @ JSON_stringify obj @ '']\<newline>'') (snd s))
             | None \<Rightarrow> (fst s, stream_write (writeStream file) (templated @ ''\<newline>'') (snd s)))
        | None \<Rightarrow> s)"

text \<open>
  The four public methods. \<open>now\<close> is the clock reading of \<open>assembleTemplate\<close> and \<open>newDate\<close> the
  later one of \<open>reloadFiles\<close>. Nothing they call is awaited, so their promise is fulfilled.
  The state returned is the one reached when the work they started is over.
\<close>

definition info :: "string \<Rightarrow> json option \<Rightarrow> JSDate \<Rightarrow> JSDate \<Rightarrow> state \<Rightarrow> settled \<times> state" where
  "info message object now newDate s =
     (let templated = assembleTemplate (fst s) now INFO message;
          s = (if is_set (consoleLog (settings (fst s)))
               then logToConsole console_info templated object s else s)
      in (Fulfilled, logToFile INFO templated object newDate s))"

definition warn :: "string \<Rightarrow> json option \<Rightarrow> JSDate \<Rightarrow> JSDate \<Rightarrow> state \<Rightarrow> settled \<times> state" where
  "warn message object now newDate s =
     (let templated = assembleTemplate (fst s) now WARN message;
          s = (if is_set (consoleLog (settings (fst s)))
               then logToConsole console_warn templated object s else s)
      in (Fulfilled, logToFile WARN templated object newDate s))"

definition debug :: "string \<Rightarrow> json option \<Rightarrow> JSDate \<Rightarrow> JSDate \<Rightarrow> state \<Rightarrow> settled \<times> state" where
  "debug message object now newDate s =
     (let templated = assembleTemplate (fst s) now DEBUG message;
          s = (if is_set (consoleLog (settings (fst s)))
               then logToConsole console_debug templated object s else s)
      in (Fulfilled, logToFile DEBUG templated object newDate s))"

definition error :: "string \<Rightarrow> json option \<Rightarrow> JSDate \<Rightarrow> JSDate \<Rightarrow> state \<Rightarrow> settled \<times> state" where
  "error message object now newDate s =
     (let templated = assembleTemplate (fst s) now ERROR message;
          s = (if is_set (consoleLog (settings (fst s)))
               then logToConsole console_error templated object s else s)
      in (Fulfilled, logToFile ERROR templated object newDate s))"


subsection \<open>The methods of the second file\<close>

definition loadFiles2 :: "JSDate \<Rightarrow> state2 \<Rightarrow> state2" where
  "loadFiles2 d s =
     (let this = (fst s)\<lparr>currentDay := date d\<rparr>;
          logDir = path_join [toString_int (fullYear d), parseMonth2 (month d)];
          logName = beautifyNumber (date d) @ ''-'' @ beautifyNumber (hours d) @ ''_''
                      @ beautifyNumber (minutes d) @ ''.log'';
          infoPath = path_join [logsPath this, ''info'', logDir];
          warnPath = path_join [logsPath this, ''warn'', logDir];
          debugPath = path_join [logsPath this, ''debug'', logDir];
          errorPath = path_join [logsPath this, ''error'', logDir];
          w = mkdirSync infoPath (snd s);
          w = mkdirSync warnPath w;
          w = mkdirSync debugPath w;
          w = mkdirSync errorPath w;
          (h, w) = createWriteStream (path_join [infoPath, logName]) w;
          this = this\<lparr>logFiles := (logFiles this)
                   (INFO \<mapsto> \<lparr>filePath = infoPath, fileName = logName, writeStream = h\<rparr>)\<rparr>;
          (h, w) = createWriteStream (path_join [warnPath, logName]) w;
          this = this\<lparr>logFiles := (logFiles this)
                   (WARN \<mapsto> \<lparr>filePath = warnPath, fileName = logName, writeStream = h\<rparr>)\<rparr>;
          (h, w) = createWriteStream (path_join [debugPath, logName]) w;
          this = this\<lparr>logFiles := (logFiles this)
                   (DEBUG \<mapsto> \<lparr>filePath = debugPath, fileName = logName, writeStream = h\<rparr>)\<rparr>;
          (h, w) = createWriteStream (path_join [errorPath, logName]) w;
          this = this\<lparr>logFiles := (logFiles this)
                   (ERROR \<mapsto> \<lparr>filePath = errorPath, fileName = logName, writeStream = h\<rparr>)\<rparr>
      in (this, w))"

definition Logger_new2 ::
  "string \<Rightarrow> string \<Rightarrow> LoggerSettings2 option \<Rightarrow> string option \<Rightarrow> JSDate \<Rightarrow> World \<Rightarrow> state2" where
  "Logger_new2 namespace' logsPath' settings' template' now w =
     loadFiles2 now
       (\<lparr>namespace = namespace',
         logsPath = logsPath',
         template = (case template' of Some t \<Rightarrow> if t \<noteq> [] then t else default_template
                     | None \<Rightarrow> default_template),
         settings = (case settings' of Some st \<Rightarrow> st | None \<Rightarrow> default_settings2),
         currentDay = 0,
         logFiles = Map.empty\<rparr>, w)"

text \<open>
  The promise built by \<open>compressFile\<close> is resolved after a successful compression and
  rejected after a failed one. When \<open>logFiles\<close> has no entry for the type, neither \<open>resolve\<close>
  nor \<open>reject\<close> is called: the promise stays pending.
\<close>

definition compressFile2 :: "LogType \<Rightarrow> state2 \<Rightarrow> settled \<times> state2" where
  "compressFile2 type s =
     (case logFiles (fst s) type of
        None \<Rightarrow> (Pending, s)
      | Some file \<Rightarrow>
          (case gzip_compressFile (path_join [filePath file, fileName file])
                  (path_join [filePath file, fileName file @ ''.gz'']) (snd s) of
             (Inr u, w) \<Rightarrow>
               (Fulfilled,
                (fst s, unlink (path_join [filePath file, fileName file])
                          (stream_end (writeStream file) w)))
           | (Inl exception, w) \<Rightarrow> (Rejected exception, (fst s, w))))"

text \<open>The \<open>catch\<close> clause of \<open>compressFiles\<close> throws the exception again.\<close>

definition compressFiles2 :: "state2 \<Rightarrow> settled \<times> state2" where
  "compressFiles2 s =
     and_then (and_then (and_then (compressFile2 INFO s) (compressFile2 WARN))
                 (compressFile2 DEBUG)) (compressFile2 ERROR)"

definition reloadFiles2 :: "JSDate \<Rightarrow> state2 \<Rightarrow> settled \<times> state2" where
  "reloadFiles2 newDate s =
     (if date newDate \<noteq> currentDay (fst s)
      then and_then (compressFiles2 s) (\<lambda>s. (Fulfilled, loadFiles2 newDate s))
      else (Fulfilled, s))"

definition logToConsole2 :: "consoleFn \<Rightarrow> string \<Rightarrow> json option \<Rightarrow> state2 \<Rightarrow> state2" where
  "logToConsole2 func templated object s =
     (case attached (logObjects (settings (fst s))) object of
        Some obj \<Rightarrow> (fst s, console_call func [Str templated, Obj obj] (snd s))
      | None \<Rightarrow> (fst s, console_call func [Str templated] (snd s)))"

definition logToFile2 ::
  "LogType \<Rightarrow> string \<Rightarrow> json option \<Rightarrow> JSDate \<Rightarrow> state2 \<Rightarrow> settled \<times> state2" where
  "logToFile2 type templated object newDate s =
     reloadFiles2 newDate
       (case logFiles (fst s) type of
          Some file \<Rightarrow>
            (case attached (logObjects (settings (fst s))) object of
               Some obj \<Rightarrow>
                 (fst s, stream_write (writeStream file)
                           (templated @ ''['' @ JSON_stringify obj @ '']\<newline>'') (snd s))
             | None \<Rightarrow> (fst s, stream_write (writeStream file) (templated @ ''\<newline>'') (snd s)))
        | None \<Rightarrow> s)"

text \<open>The public methods await what they call: their promise settles as \<open>logToFile\<close> does.\<close>

definition info2 :: "string \<Rightarrow> json option \<Rightarrow> JSDate \<Rightarrow> JSDate \<Rightarrow> state2 \<Rightarrow> settled \<times> state2" where
  "info2 message object now newDate s =
     (let templated = assembleTemplate (fst s) now INFO message;
          s = (if is_set (logToConsole_flag (settings (fst s)))
               then logToConsole2 console_info templated object s else s)
      in if is_set (logToFiles (settings (fst s)))
         then logToFile2 INFO templated object newDate s else (Fulfilled, s))"

definition warn2 :: "string \<Rightarrow> json option \<Rightarrow> JSDate \<Rightarrow> JSDate \<Rightarrow> state2 \<Rightarrow> settled \<times> state2" where
  "warn2 message object now newDate s =
     (let templated = assembleTemplate (fst s) now WARN message;
          s = (if is_set (logToConsole_flag (settings (fst s)))
               then logToConsole2 console_warn templated object s else s)
      in if is_set (logToFiles (settings (fst s)))
         then logToFile2 WARN templated object newDate s else (Fulfilled, s))"

definition debug2 :: "string \<Rightarrow> json option \<Rightarrow> JSDate \<Rightarrow> JSDate \<Rightarrow> state2 \<Rightarrow> settled \<times> state2" where
  "debug2 message object now newDate s =
     (let templated = assembleTemplate (fst s) now DEBUG message;
          s = (if is_set (logToConsole_flag (settings (fst s)))
               then logToConsole2 console_debug templated object s else s)
      in if is_set (logToFiles (settings (fst s)))
         then logToFile2 DEBUG templated object newDate s else (Fulfilled, s))"

definition error2 :: "string \<Rightarrow> json option \<Rightarrow> JSDate \<Rightarrow> JSDate \<Rightarrow> state2 \<Rightarrow> settled \<times> state2" where
  "error2 message object now newDate s =
     (let templated = assembleTemplate (fst s) now ERROR message;
          s = (if is_set (logToConsole_flag (settings (fst s)))
               then logToConsole2 console_error templated object s else s)
      in if is_set (logToFiles (settings (fst s)))
         then logToFile2 ERROR templated object newDate s else (Fulfilled, s))"

subsection \<open>The four entry points seen as one operation\<close>

fun console_of :: "LogType \<Rightarrow> consoleFn" where
  "console_of INFO = console_info"
| "console_of WARN = console_warn"
| "console_of DEBUG = console_debug"
| "console_of ERROR = console_error"

fun emit ::
  "LogType \<Rightarrow> string \<Rightarrow> json option \<Rightarrow> JSDate \<Rightarrow> JSDate \<Rightarrow> state \<Rightarrow> settled \<times> state" where
  "emit INFO = info"
| "emit WARN = warn"
| "emit DEBUG = debug"
| "emit ERROR = error"

fun emit2 ::
  "LogType \<Rightarrow> string \<Rightarrow> json option \<Rightarrow> JSDate \<Rightarrow> JSDate \<Rightarrow> state2 \<Rightarrow> settled \<times> state2" where
  "emit2 INFO = info2"
| "emit2 WARN = warn2"
| "emit2 DEBUG = debug2"
| "emit2 ERROR = error2"

text \<open>The requests that a step added to the record of the environment.\<close>

definition new_effects :: "World \<Rightarrow> World \<Rightarrow> effect list" where
  "new_effects w w' = drop (length (effects w)) (effects w')"


subsection \<open>Notions used to state the properties\<close>

text \<open>The directory name of a severity, and the parts of a path that \<open>loadFiles\<close> computes.\<close>

fun dirName :: "LogType \<Rightarrow> string" where
  "dirName INFO = ''info''"
| "dirName WARN = ''warn''"
| "dirName DEBUG = ''debug''"
| "dirName ERROR = ''error''"

definition logDir :: "JSDate \<Rightarrow> string" where
  "logDir d = path_join [toString_int (fullYear d), parseMonth (month d)]"

definition logName :: "JSDate \<Rightarrow> string" where
  "logName d = beautifyNumber (day d) @ ''-'' @ beautifyNumber (hours d) @ ''_''
                 @ beautifyNumber (minutes d) @ ''.log''"

definition logDir2 :: "JSDate \<Rightarrow> string" where
  "logDir2 d = path_join [toString_int (fullYear d), parseMonth2 (month d)]"

definition logName2 :: "JSDate \<Rightarrow> string" where
  "logName2 d = beautifyNumber (date d) @ ''-'' @ beautifyNumber (hours d) @ ''_''
                  @ beautifyNumber (minutes d) @ ''.log''"


text \<open>The text that \<open>logToFile\<close> writes for a rendered line and an optional object.\<close>

definition fileLine :: "bool option \<Rightarrow> string \<Rightarrow> json option \<Rightarrow> string" where
  "fileLine flag templated object =
     (case attached flag object of
        Some obj \<Rightarrow> templated @ ''['' @ JSON_stringify obj @ '']\<newline>''
      | None \<Rightarrow> templated @ ''\<newline>'')"

text \<open>The console call of \<open>logToConsole\<close>.\<close>

definition echo :: "bool option \<Rightarrow> consoleFn \<Rightarrow> string \<Rightarrow> json option \<Rightarrow> effect" where
  "echo flag func templated object =
     (case attached flag object of
        Some obj \<Rightarrow> Console func [Str templated, Obj obj]
      | None \<Rightarrow> Console func [Str templated])"

fun is_write :: "effect \<Rightarrow> bool" where
  "is_write (StreamWrite h c) = True"
| "is_write e = False"

fun is_console :: "effect \<Rightarrow> bool" where
  "is_console (Console f args) = True"
| "is_console e = False"

fun is_unlink :: "effect \<Rightarrow> bool" where
  "is_unlink (Unlink p) = True"
| "is_unlink e = False"

fun is_open :: "effect \<Rightarrow> bool" where
  "is_open (CreateWriteStream p h) = True"
| "is_open e = False"

text \<open>The report of a failed compression in \<open>src/logger.ts\<close>.\<close>

fun is_compress_report :: "effect \<Rightarrow> bool" where
  "is_compress_report (Console f [Str m, Err x]) =
     (f = console_error \<and> prefix ''Couldn't compress file '' m)"
| "is_compress_report e = False"

text \<open>The write handles that have not been closed.\<close>

definition open_streams :: "World \<Rightarrow> WriteStream list" where
  "open_streams w = filter (\<lambda>st. \<not> ended st) (streams w)"


text \<open>
  What a rollover of \<open>src/logger.ts\<close> may ask of the environment: directories, new files,
  compressions, and the console report of a compression that failed.
\<close>

fun rollover_effect :: "effect \<Rightarrow> bool" where
  "rollover_effect (Console f args) = is_compress_report (Console f args)"
| "rollover_effect (Mkdir p) = True"
| "rollover_effect (CreateWriteStream p h) = True"
| "rollover_effect (StreamWrite h c) = False"
| "rollover_effect (StreamEnd h) = False"
| "rollover_effect (Gzip src dst ok) = True"
| "rollover_effect (Unlink p) = False"



text \<open>A file name that \<open>path.join\<close> leaves as it is: one segment, neither \<open>.\<close> nor \<open>..\<close>.\<close>

definition plain_name :: "string \<Rightarrow> bool" where
  "plain_name n = (n \<noteq> [] \<and> CHR ''/'' \<notin> set n \<and> n \<noteq> ''.'' \<and> n \<noteq> ''..'')"

text \<open>
  The state in which \<open>logToFile\<close> calls \<open>reloadFiles\<close>: the console has been served and the
  line has been handed to the stream. In the second file this is the state in which the
  public method returns when file logging is off.
\<close>

definition after_write :: "LogType \<Rightarrow> string \<Rightarrow> json option \<Rightarrow> JSDate \<Rightarrow> state \<Rightarrow> state" where
  "after_write type message object now s =
     (let templated = assembleTemplate (fst s) now type message;
          s = (if is_set (consoleLog (settings (fst s)))
               then logToConsole (console_of type) templated object s else s)
      in case logFiles (fst s) type of
           Some file \<Rightarrow>
             (fst s, stream_write (writeStream file)
                       (fileLine (includeObjects (settings (fst s))) templated object) (snd s))
         | None \<Rightarrow> s)"

definition after_write2 :: "LogType \<Rightarrow> string \<Rightarrow> json option \<Rightarrow> JSDate \<Rightarrow> state2 \<Rightarrow> state2" where
  "after_write2 type message object now s =
     (let templated = assembleTemplate (fst s) now type message;
          s = (if is_set (logToConsole_flag (settings (fst s)))
               then logToConsole2 (console_of type) templated object s else s)
      in if is_set (logToFiles (settings (fst s)))
         then (case logFiles (fst s) type of
                 Some file \<Rightarrow>
                   (fst s, stream_write (writeStream file)
                             (fileLine (logObjects (settings (fst s))) templated object) (snd s))
               | None \<Rightarrow> s)
         else s)"




text \<open>What the compression step of the second file may ask of the environment.\<close>

fun compress_effect2 :: "effect \<Rightarrow> bool" where
  "compress_effect2 (Gzip src dst ok) = True"
| "compress_effect2 (StreamEnd h) = True"
| "compress_effect2 (Unlink p) = True"
| "compress_effect2 e = False"



subsection \<open>Concrete inputs\<close>

definition world0 :: World where
  "world0 = \<lparr>disk = Map.empty, streams = [], faulty = {}, effects = []\<rparr>"

text \<open>Monday 15 March 2021, 10:30, and the day after, 00:05 and 00:06.\<close>

definition monday :: JSDate where
  "monday = \<lparr>fullYear = 2021, month = 2, date = 15, day = 1, hours = 10, minutes = 30,
              isoString = ''2021-03-15T10:30:00.000Z''\<rparr>"

definition tuesday :: JSDate where
  "tuesday = \<lparr>fullYear = 2021, month = 2, date = 16, day = 2, hours = 0, minutes = 5,
               isoString = ''2021-03-16T00:05:00.000Z''\<rparr>"


text \<open>A file that another process removes from the disk.\<close>

definition removed :: "string \<Rightarrow> 'st Logger \<times> World \<Rightarrow> 'st Logger \<times> World" where
  "removed p s = (fst s, (snd s)\<lparr>disk := (disk (snd s))(p := None)\<rparr>)"

text \<open>Loggers built on Monday with the default settings, in an empty environment.\<close>

definition logger_svc :: state where
  "logger_svc = Logger_new ''svc'' ''logs'' None None monday world0"

definition logger_svc2 :: state2 where
  "logger_svc2 = Logger_new2 ''svc'' ''logs'' None None monday world0"





text \<open>The default logger of the second file after its info file has been removed.\<close>

definition logger_lost2 :: state2 where
  "logger_lost2 = removed ''logs/info/2021/March/15-10_30.log'' logger_svc2"




section \<open>Basic facts\<close>

subsection \<open>File names survive \<open>path.join\<close>\<close>











lemma digit_char: "k < 10 \<Longrightarrow> ''0123456789'' ! k \<in> set ''0123456789''" for k :: nat
    by (rule nth_mem) simp
lemma digit_char_minus: "k < 10 \<Longrightarrow> ''0123456789'' ! k \<in> set ''-0123456789''" for k :: nat
proof -
  assume "k < 10"
  then have "''0123456789'' ! k \<in> set ''0123456789''" by (rule digit_char)
  moreover have "set ''0123456789'' \<subseteq> set ''-0123456789''" by auto
  ultimately show ?thesis by (rule set_mp [rotated])
qed
lemma toString_int_negative: "n < 0 \<Longrightarrow> toString_int n = ''-'' @ toString_int (- n)"
  by (subst toString_int.simps) simp
lemma toString_int_digit: "0 \<le> n \<Longrightarrow> n < 10 \<Longrightarrow> toString_int n = [''0123456789'' ! nat n]"
  by (subst toString_int.simps) simp
lemma toString_int_more: "10 \<le> n \<Longrightarrow> toString_int n = toString_int (n div 10) @ [''0123456789'' ! nat (n mod 10)]"
  by (subst toString_int.simps) simp
lemma toString_int_chars: "set (toString_int n) \<subseteq> set ''-0123456789''"
proof (induction n rule: toString_int.induct)
  case (1 n)
  consider "n < 0" | "0 \<le> n" "n < 10" | "10 \<le> n" by linarith
  then show ?case
  proof cases
    case 1
    have "set (toString_int (- n)) \<subseteq> set ''-0123456789''"
      using 1 "1.IH"(1) by blast
    moreover have "set ''-'' \<subseteq> set ''-0123456789''" by simp
    ultimately show ?thesis unfolding toString_int_negative [OF 1] set_append by (rule Un_least [rotated])
  next
    case 2
    then have "nat n < 10" by simp
    then have "''0123456789'' ! nat n \<in> set ''-0123456789''" by (rule digit_char_minus)
    then show ?thesis unfolding toString_int_digit [OF 2] by (simp only: list.set insert_subset empty_subsetI simp_thms)
  next
    case 3
    have "nat (n mod 10) < 10" by simp
    then have a: "''0123456789'' ! nat (n mod 10) \<in> set ''-0123456789''" by (rule digit_char_minus)
    have "set (toString_int (n div 10)) \<subseteq> set ''-0123456789''"
      using 3 "1.IH"(2) by simp
    then show ?thesis using a unfolding toString_int_more [OF 3] set_append 
      by (simp only: list.set insert_subset empty_subsetI simp_thms Un_subset_iff)
  qed
qed

lemma beautifyNumber_chars: "set (beautifyNumber n) \<subseteq> set ''-0123456789''"
proof -
  have "set (beautifyNumber n) \<subseteq> set (''0'' @ toString_int n)"
    unfolding beautifyNumber_def slice_last_def by (rule set_drop_subset)
  moreover have "set (''0'' @ toString_int n) \<subseteq> set ''-0123456789''"
    using toString_int_chars [of n] by simp
  ultimately show ?thesis by (rule subset_trans)
qed

lemma beautifyNumber_no_slash: "CHR ''/'' \<notin> set (beautifyNumber n)"
proof
  assume "CHR ''/'' \<in> set (beautifyNumber n)"
  then have "CHR ''/'' \<in> set ''-0123456789''"
    using beautifyNumber_chars by blast
  then show False by simp
qed

lemma plain_nameI:
  assumes "CHR ''/'' \<notin> set n" and "3 \<le> length n"
  shows "plain_name n"
proof -
  have "n \<noteq> []" "n \<noteq> ''.''" "n \<noteq> ''..''"
    using assms(2) by auto
  then show ?thesis using assms(1) by (simp add: plain_name_def)
qed



lemma logName2_plain: "plain_name (logName2 d)"
  by (rule plain_nameI) (simp_all add: logName2_def beautifyNumber_no_slash)


subsection \<open>Opening the files of a period\<close>

lemmas env_defs = mkdirSync_def createWriteStream_def console_call_def stream_write_def
  stream_end_def unlink_def gzip_compressFile_def


lemma loadFiles_config:
  "namespace (fst (loadFiles d s)) = namespace (fst s)"
  "logsPath (fst (loadFiles d s)) = logsPath (fst s)"
  "template (fst (loadFiles d s)) = template (fst s)"
  "settings (fst (loadFiles d s)) = settings (fst s)"
  "currentDay (fst (loadFiles d s)) = day d"
  by (simp_all add: loadFiles_def Let_def env_defs)

lemma loadFiles_effects:
  "effects (snd (loadFiles d s)) = effects (snd s) @
     map (\<lambda>ty. Mkdir (path_join [logsPath (fst s), dirName ty, logDir d])) [INFO, WARN, DEBUG, ERROR] @
     map (\<lambda>ty. CreateWriteStream (path_join [path_join [logsPath (fst s), dirName ty, logDir d], logName d])
                 (length (streams (snd s)) + nat (LogType_value ty))) [INFO, WARN, DEBUG, ERROR]"
  by (simp add: loadFiles_def Let_def env_defs logDir_def logName_def)

lemma loadFiles_streams:
  "streams (snd (loadFiles d s)) = streams (snd s) @
     map (\<lambda>ty. \<lparr>target = path_join [path_join [logsPath (fst s), dirName ty, logDir d], logName d], ended = False\<rparr>)
       [INFO, WARN, DEBUG, ERROR]"
  by (simp add: loadFiles_def Let_def env_defs logDir_def logName_def)

lemma loadFiles_disk:
  "disk (snd (loadFiles d s)) p =
     (if p \<in> (\<lambda>ty. path_join [path_join [logsPath (fst s), dirName ty, logDir d], logName d]) ` {INFO, WARN, DEBUG, ERROR}
      then Some (Raw []) else disk (snd s) p)"
  by (simp add: loadFiles_def Let_def env_defs logDir_def logName_def)

lemma loadFiles_faulty: "faulty (snd (loadFiles d s)) = faulty (snd s)"
  by (simp add: loadFiles_def Let_def env_defs)

lemma compressFile_logger: "fst (compressFile ty s) = fst s"
  by (simp add: compressFile_def env_defs split: option.splits prod.splits sum.splits)

lemma compressFile_streams: "streams (snd (compressFile ty s)) = streams (snd s)"
  by (simp add: compressFile_def env_defs split: option.splits prod.splits sum.splits)

lemma compressFile_faulty: "faulty (snd (compressFile ty s)) = faulty (snd s)"
  by (simp add: compressFile_def env_defs split: option.splits prod.splits sum.splits)



subsection \<open>The rollover of \<open>src/logger.ts\<close>\<close>

lemma reloadFiles_same_day: "day newDate = currentDay (fst s) \<Longrightarrow> reloadFiles newDate s = s"
  by (simp add: reloadFiles_def)

lemma compressFiles_resume_logger: "fst (compressFiles_resume s) = fst s"
  by (simp add: compressFiles_resume_def compressFile_logger)

lemma compressFiles_resume_streams: "streams (snd (compressFiles_resume s)) = streams (snd s)"
  by (simp add: compressFiles_resume_def compressFile_streams)


lemma reloadFiles_config:
  "namespace (fst (reloadFiles d s)) = namespace (fst s)"
  "logsPath (fst (reloadFiles d s)) = logsPath (fst s)"
  "template (fst (reloadFiles d s)) = template (fst s)"
  "settings (fst (reloadFiles d s)) = settings (fst s)"
  by (simp_all add: reloadFiles_def compressFiles_resume_logger compressFiles_begin_def
        loadFiles_config compressFile_logger)



lemma reloadFiles_streams:
  "day d \<noteq> currentDay (fst s) \<Longrightarrow>
   streams (snd (reloadFiles d s)) = streams (snd s) @
     map (\<lambda>ty. \<lparr>target = path_join [path_join [logsPath (fst s), dirName ty, logDir d], logName d], ended = False\<rparr>)
       [INFO, WARN, DEBUG, ERROR]"
  by (simp add: reloadFiles_def compressFiles_resume_streams compressFiles_begin_def
        loadFiles_streams compressFile_logger compressFile_streams)




lemma stream_write_fields:
  "effects (stream_write h c w) = effects w @ [StreamWrite h c]"
  "streams (stream_write h c w) = streams w"
  "faulty (stream_write h c w) = faulty w"
  by (simp_all add: stream_write_def Let_def split: option.splits fileData.splits)


lemma logToFile_Some:
  "logFiles (fst s) ty = Some file \<Longrightarrow>
   logToFile ty t obj nd s =
     reloadFiles nd (fst s, stream_write (writeStream file) (fileLine (includeObjects (settings (fst s))) t obj) (snd s))"
  by (simp add: logToFile_def fileLine_def split: option.splits)

lemma logToFile_None:
  "logFiles (fst s) ty = None \<Longrightarrow> logToFile ty t obj nd s = reloadFiles nd s"
  by (simp add: logToFile_def)

lemma logToConsole_fields:
  "fst (logToConsole f t obj s) = fst s"
  "effects (snd (logToConsole f t obj s)) = effects (snd s) @ [echo (includeObjects (settings (fst s))) f t obj]"
  "streams (snd (logToConsole f t obj s)) = streams (snd s)"
  "disk (snd (logToConsole f t obj s)) = disk (snd s)"
  "faulty (snd (logToConsole f t obj s)) = faulty (snd s)"
  by (simp_all add: logToConsole_def echo_def console_call_def split: option.splits)

lemma emit_unfold:
  "emit ty message object now newDate s =
     (Fulfilled,
      logToFile ty (assembleTemplate (fst s) now ty message) object newDate
        (if is_set (consoleLog (settings (fst s)))
         then logToConsole (console_of ty) (assembleTemplate (fst s) now ty message) object s
         else s))"
  by (cases ty) (simp_all add: info_def warn_def debug_def error_def Let_def)

declare emit.simps [simp del]

lemma emit_frame:
  "namespace (fst (snd (emit ty message object now newDate s))) = namespace (fst s)"
  "logsPath (fst (snd (emit ty message object now newDate s))) = logsPath (fst s)"
  "template (fst (snd (emit ty message object now newDate s))) = template (fst s)"
  "settings (fst (snd (emit ty message object now newDate s))) = settings (fst s)"
  by (simp_all add: emit_unfold logToFile_def reloadFiles_config logToConsole_fields split: option.splits)

lemma emit_same_day:
  assumes "day newDate = currentDay (fst s)"
  shows "currentDay (fst (snd (emit ty message object now newDate s))) = currentDay (fst s)"
    and "logFiles (fst (snd (emit ty message object now newDate s))) = logFiles (fst s)"
  using assms
  by (simp_all add: emit_unfold logToFile_def reloadFiles_same_day logToConsole_fields split: option.splits)

subsection \<open>The rollover of the second file\<close>


lemma loadFiles2_config:
  "namespace (fst (loadFiles2 d s)) = namespace (fst s)"
  "logsPath (fst (loadFiles2 d s)) = logsPath (fst s)"
  "template (fst (loadFiles2 d s)) = template (fst s)"
  "settings (fst (loadFiles2 d s)) = settings (fst s)"
  "currentDay (fst (loadFiles2 d s)) = date d"
  by (simp_all add: loadFiles2_def Let_def env_defs)

lemma loadFiles2_effects:
  "effects (snd (loadFiles2 d s)) = effects (snd s) @
     map (\<lambda>ty. Mkdir (path_join [logsPath (fst s), dirName ty, logDir2 d])) [INFO, WARN, DEBUG, ERROR] @
     map (\<lambda>ty. CreateWriteStream (path_join [path_join [logsPath (fst s), dirName ty, logDir2 d], logName2 d])
                 (length (streams (snd s)) + nat (LogType_value ty))) [INFO, WARN, DEBUG, ERROR]"
  by (simp add: loadFiles2_def Let_def env_defs logDir2_def logName2_def)

lemma loadFiles2_streams:
  "streams (snd (loadFiles2 d s)) = streams (snd s) @
     map (\<lambda>ty. \<lparr>target = path_join [path_join [logsPath (fst s), dirName ty, logDir2 d], logName2 d], ended = False\<rparr>)
       [INFO, WARN, DEBUG, ERROR]"
  by (simp add: loadFiles2_def Let_def env_defs logDir2_def logName2_def)


lemma and_then_if: "and_then r f = (if fst r = Fulfilled then f (snd r) else r)"
  by (simp add: and_then_def split: settled.splits)

lemma compressFile2_logger: "fst (snd (compressFile2 ty s)) = fst s"
  by (simp add: compressFile2_def env_defs split: option.splits prod.splits sum.splits)



lemma and_then_logger:
  assumes "fst (snd r) = L" and "\<And>s. fst (snd (f s)) = fst s"
  shows "fst (snd (and_then r f)) = L"
  using assms by (simp add: and_then_if)



lemma compressFiles2_logger: "fst (snd (compressFiles2 s)) = fst s"
  unfolding compressFiles2_def
  by (intro and_then_logger compressFile2_logger)



lemma reloadFiles2_same_day: "date d = currentDay (fst s) \<Longrightarrow> reloadFiles2 d s = (Fulfilled, s)"
  by (simp add: reloadFiles2_def)

lemma reloadFiles2_config:
  "namespace (fst (snd (reloadFiles2 d s))) = namespace (fst s)"
  "logsPath (fst (snd (reloadFiles2 d s))) = logsPath (fst s)"
  "template (fst (snd (reloadFiles2 d s))) = template (fst s)"
  "settings (fst (snd (reloadFiles2 d s))) = settings (fst s)"
  by (simp_all add: reloadFiles2_def and_then_if loadFiles2_config compressFiles2_logger)






lemma logToFile2_Some:
  "logFiles (fst s) ty = Some file \<Longrightarrow>
   logToFile2 ty t obj nd s =
     reloadFiles2 nd (fst s, stream_write (writeStream file) (fileLine (logObjects (settings (fst s))) t obj) (snd s))"
  by (simp add: logToFile2_def fileLine_def split: option.splits)

lemma logToFile2_None:
  "logFiles (fst s) ty = None \<Longrightarrow> logToFile2 ty t obj nd s = reloadFiles2 nd s"
  by (simp add: logToFile2_def)

lemma logToConsole2_fields:
  "fst (logToConsole2 f t obj s) = fst s"
  "effects (snd (logToConsole2 f t obj s)) = effects (snd s) @ [echo (logObjects (settings (fst s))) f t obj]"
  "streams (snd (logToConsole2 f t obj s)) = streams (snd s)"
  "disk (snd (logToConsole2 f t obj s)) = disk (snd s)"
  "faulty (snd (logToConsole2 f t obj s)) = faulty (snd s)"
  by (simp_all add: logToConsole2_def echo_def console_call_def split: option.splits)

lemma emit2_unfold:
  "emit2 ty message object now newDate s =
     (let s0 = (if is_set (logToConsole_flag (settings (fst s)))
                then logToConsole2 (console_of ty) (assembleTemplate (fst s) now ty message) object s
                else s)
      in if is_set (logToFiles (settings (fst s)))
         then logToFile2 ty (assembleTemplate (fst s) now ty message) object newDate s0
         else (Fulfilled, s0))"
  by (cases ty) (simp_all add: info2_def warn2_def debug2_def error2_def Let_def logToConsole2_fields)

declare emit2.simps [simp del]

subsection \<open>A public call: console, write, rollover\<close>

lemma emit_steps:
  "snd (emit ty message object now newDate s) = reloadFiles newDate (after_write ty message object now s)"
  "fst (emit ty message object now newDate s) = Fulfilled"
  by (simp_all add: emit_unfold after_write_def logToFile_def fileLine_def Let_def logToConsole_fields
        split: option.splits)

lemma emit2_steps:
  "emit2 ty message object now newDate s =
     (if is_set (logToFiles (settings (fst s)))
      then reloadFiles2 newDate (after_write2 ty message object now s)
      else (Fulfilled, after_write2 ty message object now s))"
  by (simp add: emit2_unfold after_write2_def logToFile2_def fileLine_def Let_def logToConsole2_fields
        split: option.splits)

lemma after_write_fields:
  "fst (after_write ty message object now s) = fst s"
  "streams (snd (after_write ty message object now s)) = streams (snd s)"
  "faulty (snd (after_write ty message object now s)) = faulty (snd s)"
  by (simp_all add: after_write_def Let_def logToConsole_fields stream_write_fields split: option.splits)

lemma after_write2_fields:
  "fst (after_write2 ty message object now s) = fst s"
  "streams (snd (after_write2 ty message object now s)) = streams (snd s)"
  "faulty (snd (after_write2 ty message object now s)) = faulty (snd s)"
  by (simp_all add: after_write2_def Let_def logToConsole2_fields stream_write_fields split: option.splits)





lemma new_effects_append:
  "effects w' = effects w @ xs \<Longrightarrow> new_effects w w' = xs"
  by (simp add: new_effects_def)








subsection \<open>Failed compressions\<close>








lemma reloadFiles_no_unlink:
  "list_all rollover_effect xs \<Longrightarrow> \<not> list_ex is_unlink xs"
  by (induction xs) (auto elim: rollover_effect.elims)











lemma compress_effect2_props:
  "list_all compress_effect2 xs \<Longrightarrow> \<not> list_ex is_open xs \<and> \<not> list_ex is_console xs \<and> \<not> list_ex is_write xs"
  by (induction xs) (auto elim: compress_effect2.elims)


lemma emit2_frame:
  "namespace (fst (snd (emit2 ty message object now newDate s))) = namespace (fst s)"
  "logsPath (fst (snd (emit2 ty message object now newDate s))) = logsPath (fst s)"
  "template (fst (snd (emit2 ty message object now newDate s))) = template (fst s)"
  "settings (fst (snd (emit2 ty message object now newDate s))) = settings (fst s)"
  by (simp_all add: emit2_steps reloadFiles2_config after_write2_fields)

lemma emit2_same_day:
  assumes "date newDate = currentDay (fst s)"
  shows "emit2 ty message object now newDate s = (Fulfilled, after_write2 ty message object now s)"
  using assms by (simp add: emit2_steps reloadFiles2_same_day after_write2_fields)


subsection \<open>What a call adds to the record of the environment\<close>











subsection \<open>A rotation of the second file that succeeds\<close>








subsection \<open>The concrete loggers\<close>

lemma logName_values:
  "logDir monday = ''2021/February''" "logName monday = ''01-10_30.log''"
  "logDir tuesday = ''2021/February''" "logName tuesday = ''02-00_05.log''"
  "logDir2 monday = ''2021/March''" "logName2 monday = ''15-10_30.log''"
  "logDir2 tuesday = ''2021/March''" "logName2 tuesday = ''16-00_05.log''"
  by code_simp+

lemma svc_dirs:
  "path_join [''logs'', ''info'', ''2021/February''] = ''logs/info/2021/February''"
  "path_join [''logs'', ''warn'', ''2021/February''] = ''logs/warn/2021/February''"
  "path_join [''logs'', ''debug'', ''2021/February''] = ''logs/debug/2021/February''"
  "path_join [''logs'', ''error'', ''2021/February''] = ''logs/error/2021/February''"
  "path_join [''logs'', ''info'', ''2021/March''] = ''logs/info/2021/March''"
  "path_join [''logs'', ''warn'', ''2021/March''] = ''logs/warn/2021/March''"
  "path_join [''logs'', ''debug'', ''2021/March''] = ''logs/debug/2021/March''"
  "path_join [''logs'', ''error'', ''2021/March''] = ''logs/error/2021/March''"
  by code_simp+

lemma svc_paths:
  "path_join [''logs/info/2021/February'', ''01-10_30.log''] = ''logs/info/2021/February/01-10_30.log''"
  "path_join [''logs/warn/2021/February'', ''01-10_30.log''] = ''logs/warn/2021/February/01-10_30.log''"
  "path_join [''logs/debug/2021/February'', ''01-10_30.log''] = ''logs/debug/2021/February/01-10_30.log''"
  "path_join [''logs/error/2021/February'', ''01-10_30.log''] = ''logs/error/2021/February/01-10_30.log''"
  "path_join [''logs/info/2021/February'', ''02-00_05.log''] = ''logs/info/2021/February/02-00_05.log''"
  "path_join [''logs/warn/2021/February'', ''02-00_05.log''] = ''logs/warn/2021/February/02-00_05.log''"
  "path_join [''logs/debug/2021/February'', ''02-00_05.log''] = ''logs/debug/2021/February/02-00_05.log''"
  "path_join [''logs/error/2021/February'', ''02-00_05.log''] = ''logs/error/2021/February/02-00_05.log''"
  by code_simp+

lemma svc_paths2:
  "path_join [''logs/info/2021/March'', ''15-10_30.log''] = ''logs/info/2021/March/15-10_30.log''"
  "path_join [''logs/warn/2021/March'', ''15-10_30.log''] = ''logs/warn/2021/March/15-10_30.log''"
  "path_join [''logs/debug/2021/March'', ''15-10_30.log''] = ''logs/debug/2021/March/15-10_30.log''"
  "path_join [''logs/error/2021/March'', ''15-10_30.log''] = ''logs/error/2021/March/15-10_30.log''"
  "path_join [''logs/info/2021/March'', ''16-00_05.log''] = ''logs/info/2021/March/16-00_05.log''"
  "path_join [''logs/warn/2021/March'', ''16-00_05.log''] = ''logs/warn/2021/March/16-00_05.log''"
  "path_join [''logs/debug/2021/March'', ''16-00_05.log''] = ''logs/debug/2021/March/16-00_05.log''"
  "path_join [''logs/error/2021/March'', ''16-00_05.log''] = ''logs/error/2021/March/16-00_05.log''"
  by code_simp+

lemma loadFiles2_faulty: "faulty (snd (loadFiles2 d s)) = faulty (snd s)"
  by (simp add: loadFiles2_def Let_def env_defs)

lemma logger_svc_config:
  "namespace (fst logger_svc) = ''svc''" "logsPath (fst logger_svc) = ''logs''"
  "template (fst logger_svc) = default_template" "settings (fst logger_svc) = default_settings"
  "currentDay (fst logger_svc) = 1" "faulty (snd logger_svc) = {}"
  by (simp_all add: logger_svc_def Logger_new_def loadFiles_config loadFiles_faulty monday_def world0_def)


lemma logger_svc_streams:
  "streams (snd logger_svc) =
     [\<lparr>target = ''logs/info/2021/February/01-10_30.log'', ended = False\<rparr>,
      \<lparr>target = ''logs/warn/2021/February/01-10_30.log'', ended = False\<rparr>,
      \<lparr>target = ''logs/debug/2021/February/01-10_30.log'', ended = False\<rparr>,
      \<lparr>target = ''logs/error/2021/February/01-10_30.log'', ended = False\<rparr>]"
  by (simp add: logger_svc_def Logger_new_def loadFiles_streams logName_values svc_dirs svc_paths svc_paths2 world0_def)

lemma logger_svc_disk:
  "disk (snd logger_svc) ''logs/info/2021/February/01-10_30.log'' = Some (Raw [])"
  "disk (snd logger_svc) ''logs/warn/2021/February/01-10_30.log'' = Some (Raw [])"
  "disk (snd logger_svc) ''logs/debug/2021/February/01-10_30.log'' = Some (Raw [])"
  "disk (snd logger_svc) ''logs/error/2021/February/01-10_30.log'' = Some (Raw [])"
  by (simp_all add: logger_svc_def Logger_new_def loadFiles_disk logName_values svc_dirs svc_paths svc_paths2 world0_def)

lemma logger_svc_effects:
  "effects (snd logger_svc) =
     [Mkdir ''logs/info/2021/February'',
      Mkdir ''logs/warn/2021/February'',
      Mkdir ''logs/debug/2021/February'',
      Mkdir ''logs/error/2021/February'',
      CreateWriteStream ''logs/info/2021/February/01-10_30.log'' 0,
      CreateWriteStream ''logs/warn/2021/February/01-10_30.log'' 1,
      CreateWriteStream ''logs/debug/2021/February/01-10_30.log'' 2,
      CreateWriteStream ''logs/error/2021/February/01-10_30.log'' 3]"
  by (simp add: logger_svc_def Logger_new_def loadFiles_effects logName_values svc_dirs svc_paths svc_paths2 world0_def)

lemma logger_svc2_config:
  "namespace (fst logger_svc2) = ''svc''" "logsPath (fst logger_svc2) = ''logs''"
  "template (fst logger_svc2) = default_template" "settings (fst logger_svc2) = default_settings2"
  "currentDay (fst logger_svc2) = 15" "faulty (snd logger_svc2) = {}"
  by (simp_all add: logger_svc2_def Logger_new2_def loadFiles2_config loadFiles2_faulty monday_def world0_def)


lemma logger_svc2_streams:
  "streams (snd logger_svc2) =
     [\<lparr>target = ''logs/info/2021/March/15-10_30.log'', ended = False\<rparr>,
      \<lparr>target = ''logs/warn/2021/March/15-10_30.log'', ended = False\<rparr>,
      \<lparr>target = ''logs/debug/2021/March/15-10_30.log'', ended = False\<rparr>,
      \<lparr>target = ''logs/error/2021/March/15-10_30.log'', ended = False\<rparr>]"
  by (simp add: logger_svc2_def Logger_new2_def loadFiles2_streams logName_values svc_dirs svc_paths svc_paths2 world0_def)


lemma logger_svc2_effects:
  "effects (snd logger_svc2) =
     [Mkdir ''logs/info/2021/March'',
      Mkdir ''logs/warn/2021/March'',
      Mkdir ''logs/debug/2021/March'',
      Mkdir ''logs/error/2021/March'',
      CreateWriteStream ''logs/info/2021/March/15-10_30.log'' 0,
      CreateWriteStream ''logs/warn/2021/March/15-10_30.log'' 1,
      CreateWriteStream ''logs/debug/2021/March/15-10_30.log'' 2,
      CreateWriteStream ''logs/error/2021/March/15-10_30.log'' 3]"
  by (simp add: logger_svc2_def Logger_new2_def loadFiles2_effects logName_values svc_dirs svc_paths svc_paths2 world0_def)
























lemma logger_lost2_effects_unfold:
  "effects (snd logger_lost2) = effects (snd logger_svc2)"
  by (simp add: logger_lost2_def removed_def)


lemma emit_rollover_streams:
  assumes "day newDate \<noteq> currentDay (fst s)"
  shows "streams (snd (snd (emit ty message object now newDate s))) = streams (snd s) @
     map (\<lambda>ty. \<lparr>target = path_join [path_join [logsPath (fst s), dirName ty, logDir newDate],
                                       logName newDate], ended = False\<rparr>)
       [INFO, WARN, DEBUG, ERROR]"
proof -
  have "day newDate \<noteq> currentDay (fst (after_write ty message object now s))"
    using assms by (simp add: after_write_fields)
  then show ?thesis
    by (simp add: emit_steps reloadFiles_streams after_write_fields)
qed


section \<open>The claims\<close>

text \<open>
  C1. The code contradicts the claim: \<open>%type%\<close> is replaced by \<open>type.toString()\<close>, and
  \<open>LogType\<close> is a numeric enum, so the severities are rendered as 0, 1, 2 and 3. With
  namespace \<open>svc\<close> and default settings, \<open>info("boot")\<close> writes the line
  \<open>[<iso>] [0] [svc] [boot]\<close>, in both files.
\<close>

theorem C1_type_rendered_as_number:
  "map LogType_toString [INFO, WARN, DEBUG, ERROR] = [''0'', ''1'', ''2'', ''3'']
   \<and> assembleTemplate (fst logger_svc) monday INFO ''boot''
       = ''[2021-03-15T10:30:00.000Z] [0] [svc] [boot]''
   \<and> disk (snd (snd (info ''boot'' None monday monday logger_svc)))
         ''logs/info/2021/February/01-10_30.log''
       = Some (Raw ''[2021-03-15T10:30:00.000Z] [0] [svc] [boot]\<newline>'')
   \<and> disk (snd (snd (info2 ''boot'' None monday monday logger_svc2)))
         ''logs/info/2021/March/15-10_30.log''
       = Some (Raw ''[2021-03-15T10:30:00.000Z] [0] [svc] [boot]\<newline>'')"
  by code_simp

text \<open>
  C2. \<open>src/logger.ts\<close> contradicts the claim: its \<open>parseMonth\<close> counts months from 1 although
  \<open>getMonth()\<close> counts from 0, and its file name starts with \<open>getDay()\<close>, the day of the week.
  A logger built on Monday 15 March 2021 at 10:30 opens \<open>February/01-10_30.log\<close>; the second
  file opens \<open>March/15-10_30.log\<close>.
\<close>

theorem C2_month_and_day_of_path:
  "logFiles (fst (Logger_new ''svc'' ''logs'' None None monday world0)) INFO
     = Some \<lparr>filePath = ''logs/info/2021/February'', fileName = ''01-10_30.log'', writeStream = 0\<rparr>
   \<and> map target (streams (snd (Logger_new ''svc'' ''logs'' None None monday world0)))
     = [''logs/info/2021/February/01-10_30.log'', ''logs/warn/2021/February/01-10_30.log'',
        ''logs/debug/2021/February/01-10_30.log'', ''logs/error/2021/February/01-10_30.log'']
   \<and> map parseMonth [0, 1, 2, 11] = [''January'', ''January'', ''February'', ''November'']
   \<and> map target (streams (snd (Logger_new2 ''svc'' ''logs'' None None monday world0)))
     = [''logs/info/2021/March/15-10_30.log'', ''logs/warn/2021/March/15-10_30.log'',
        ''logs/debug/2021/March/15-10_30.log'', ''logs/error/2021/March/15-10_30.log'']"
  by code_simp









text \<open>
  C6. \<open>src/logger.ts\<close> contradicts the claim: its \<open>compressFile\<close> never ends a write stream.
  After the rollover that a call on Tuesday triggers, the four handles opened on Monday are
  still open beside the four new ones: two open handles for every severity.
\<close>

theorem C6_handles_left_open:
  "streams (snd (snd (info ''boot'' None tuesday tuesday logger_svc)))
     = [\<lparr>target = ''logs/info/2021/February/01-10_30.log'', ended = False\<rparr>,
        \<lparr>target = ''logs/warn/2021/February/01-10_30.log'', ended = False\<rparr>,
        \<lparr>target = ''logs/debug/2021/February/01-10_30.log'', ended = False\<rparr>,
        \<lparr>target = ''logs/error/2021/February/01-10_30.log'', ended = False\<rparr>,
        \<lparr>target = ''logs/info/2021/February/02-00_05.log'', ended = False\<rparr>,
        \<lparr>target = ''logs/warn/2021/February/02-00_05.log'', ended = False\<rparr>,
        \<lparr>target = ''logs/debug/2021/February/02-00_05.log'', ended = False\<rparr>,
        \<lparr>target = ''logs/error/2021/February/02-00_05.log'', ended = False\<rparr>]
   \<and> length (open_streams (snd (snd (info ''boot'' None tuesday tuesday logger_svc)))) = 8"
proof -
  have r: "day tuesday \<noteq> currentDay (fst logger_svc)"
    by (simp add: logger_svc_config tuesday_def)
  have "streams (snd (snd (emit INFO ''boot'' None tuesday tuesday logger_svc)))
     = [\<lparr>target = ''logs/info/2021/February/01-10_30.log'', ended = False\<rparr>,
        \<lparr>target = ''logs/warn/2021/February/01-10_30.log'', ended = False\<rparr>,
        \<lparr>target = ''logs/debug/2021/February/01-10_30.log'', ended = False\<rparr>,
        \<lparr>target = ''logs/error/2021/February/01-10_30.log'', ended = False\<rparr>,
        \<lparr>target = ''logs/info/2021/February/02-00_05.log'', ended = False\<rparr>,
        \<lparr>target = ''logs/warn/2021/February/02-00_05.log'', ended = False\<rparr>,
        \<lparr>target = ''logs/debug/2021/February/02-00_05.log'', ended = False\<rparr>,
        \<lparr>target = ''logs/error/2021/February/02-00_05.log'', ended = False\<rparr>]"
    by (simp add: emit_rollover_streams [OF r] logger_svc_streams logger_svc_config logName_values
          svc_dirs svc_paths)
  then show ?thesis
    by (simp add: emit.simps open_streams_def)
qed







text \<open>
  C10. A public call leaves namespace, base path, template and settings as they were, in
  both files; when the day read at the rollover check equals the rotation marker, the marker
  and the map of OutputFiles are unchanged as well.
\<close>

theorem C10_configuration_unchanged:
  "namespace (fst (snd (emit ty message object now newDate s))) = namespace (fst s)
   \<and> logsPath (fst (snd (emit ty message object now newDate s))) = logsPath (fst s)
   \<and> template (fst (snd (emit ty message object now newDate s))) = template (fst s)
   \<and> settings (fst (snd (emit ty message object now newDate s))) = settings (fst s)
   \<and> (day newDate = currentDay (fst s) \<longrightarrow>
        currentDay (fst (snd (emit ty message object now newDate s))) = currentDay (fst s)
        \<and> logFiles (fst (snd (emit ty message object now newDate s))) = logFiles (fst s))
   \<and> namespace (fst (snd (emit2 ty message object now newDate s2))) = namespace (fst s2)
   \<and> logsPath (fst (snd (emit2 ty message object now newDate s2))) = logsPath (fst s2)
   \<and> template (fst (snd (emit2 ty message object now newDate s2))) = template (fst s2)
   \<and> settings (fst (snd (emit2 ty message object now newDate s2))) = settings (fst s2)
   \<and> (date newDate = currentDay (fst s2) \<longrightarrow>
        currentDay (fst (snd (emit2 ty message object now newDate s2))) = currentDay (fst s2)
        \<and> logFiles (fst (snd (emit2 ty message object now newDate s2))) = logFiles (fst s2))"
  by (simp add: emit_frame emit_same_day emit2_frame emit2_same_day after_write2_fields)

theorem C10_configuration_unchanged_witness:
  "day monday = currentDay (fst logger_svc)
   \<and> date monday = currentDay (fst logger_svc2)
   \<and> namespace (fst (snd (emit INFO ''boot'' None monday monday logger_svc))) = ''svc''
   \<and> currentDay (fst (snd (emit INFO ''boot'' None monday monday logger_svc))) = 1
   \<and> logFiles (fst (snd (emit INFO ''boot'' None monday monday logger_svc))) = logFiles (fst logger_svc)
   \<and> namespace (fst (snd (emit2 INFO ''boot'' None monday monday logger_svc2))) = ''svc''
   \<and> currentDay (fst (snd (emit2 INFO ''boot'' None monday monday logger_svc2))) = 15
   \<and> logFiles (fst (snd (emit2 INFO ''boot'' None monday monday logger_svc2))) = logFiles (fst logger_svc2)"
proof -
  have h1: "day monday = currentDay (fst logger_svc)"
    by (simp add: logger_svc_config monday_def)
  have h2: "date monday = currentDay (fst logger_svc2)"
    by (simp add: logger_svc2_config monday_def)
  show ?thesis
    using h1 h2
      C10_configuration_unchanged [of INFO "''boot''" None monday monday logger_svc logger_svc2]
    by (simp add: logger_svc_config logger_svc2_config)
qed

end
